theory Spec2Isabelle
  imports Complex_Main "HOL-Library.Sublist" "HOL-Library.List_Lexorder"
    "HOL-Library.Product_Lexorder"
begin

section \<open>Python strings\<close>

text \<open>
  A Python \<^verbatim>\<open>str\<close> is a sequence of Unicode code points, so a string is a list of
  integers here. \<open>u\<close> turns an ASCII literal into such a list; the CJK literals
  of the source are written as explicit code points.
\<close>

type_synonym ustr = "int list"

definition u :: "string \<Rightarrow> ustr" where
  "u s = map of_char s"

text \<open>
  \<^verbatim>\<open>str.strip()\<close> removes leading and trailing white space: the code points for which
  \<^verbatim>\<open>str.isspace\<close> holds.
\<close>

definition is_space :: "int \<Rightarrow> bool" where
  "is_space c =
     ((9 \<le> c \<and> c \<le> 13) \<or> (28 \<le> c \<and> c \<le> 32) \<or> c = 133 \<or> c = 160 \<or> c = 5760
      \<or> (8192 \<le> c \<and> c \<le> 8202) \<or> c = 8232 \<or> c = 8233 \<or> c = 8239 \<or> c = 8287
      \<or> c = 12288)"

definition strip :: "ustr \<Rightarrow> ustr" where
  "strip s = rev (dropWhile is_space (rev (dropWhile is_space s)))"

text \<open>
  \<^verbatim>\<open>str.lower()\<close> and \<^verbatim>\<open>str.upper()\<close> on the ASCII letters. Code points outside
  ASCII are left as they are, which is what Python does for the CJK characters of the
  source's tables; cased letters outside ASCII are outside this model.
\<close>

definition lower_cp :: "int \<Rightarrow> int" where
  "lower_cp c = (if 65 \<le> c \<and> c \<le> 90 then c + 32 else c)"

definition lower :: "ustr \<Rightarrow> ustr" where
  "lower s = map lower_cp s"

definition upper_cp :: "int \<Rightarrow> int" where
  "upper_cp c = (if 97 \<le> c \<and> c \<le> 122 then c - 32 else c)"

definition upper :: "ustr \<Rightarrow> ustr" where
  "upper s = map upper_cp s"

text \<open>\<^verbatim>\<open>needle in hay\<close> on strings: \<open>needle\<close> occurs in \<open>hay\<close> as a contiguous run.\<close>

fun py_in :: "ustr \<Rightarrow> ustr \<Rightarrow> bool" where
  "py_in needle [] = (needle = [])"
| "py_in needle (h # hs) = (prefix needle (h # hs) \<or> py_in needle hs)"

section \<open>Country names\<close>

definition TARGET_COUNTRIES :: "ustr list" where
  "TARGET_COUNTRIES =
     [u ''United States'', u ''China'', u ''United Kingdom'', u ''Germany'', u ''Japan'',
      u ''South Korea'', u ''France'', u ''Canada'', u ''India'', u ''United Arab Emirates'']"

text \<open>
  The dictionary \<^verbatim>\<open>COUNTRY_NAME_MAPPING\<close>, as the list of its items in insertion order
  (the order in which Python iterates a dict). Its keys are pairwise distinct.
\<close>

definition COUNTRY_NAME_MAPPING :: "(ustr \<times> ustr) list" where
  "COUNTRY_NAME_MAPPING =
     [(u ''People's Republic of China'', u ''China''),
      (u ''China (People's Republic of)'', u ''China''),
      (u ''CHN'', u ''China''),
      (u ''PRC'', u ''China''),
      ([20013, 22269], u ''China''),
      (u ''Korea'', u ''South Korea''),
      (u ''Republic of Korea'', u ''South Korea''),
      (u ''Korea, Rep.'', u ''South Korea''),
      (u ''KOR'', u ''South Korea''),
      (u ''South Korea (Republic of Korea)'', u ''South Korea''),
      ([38889, 22269], u ''South Korea''),
      (u ''USA'', u ''United States''),
      (u ''U.S.A.'', u ''United States''),
      (u ''US'', u ''United States''),
      (u ''U.S.'', u ''United States''),
      (u ''United States of America'', u ''United States''),
      ([32654, 22269], u ''United States''),
      (u ''UK'', u ''United Kingdom''),
      (u ''GBR'', u ''United Kingdom''),
      (u ''Great Britain'', u ''United Kingdom''),
      (u ''United Kingdom of Great Britain and Northern Ireland'', u ''United Kingdom''),
      ([33521, 22269], u ''United Kingdom''),
      (u ''DEU'', u ''Germany''),
      (u ''Deutschland'', u ''Germany''),
      ([24503, 22269], u ''Germany''),
      (u ''JPN'', u ''Japan''),
      ([26085, 26412], u ''Japan''),
      (u ''FRA'', u ''France''),
      ([27861, 22269], u ''France''),
      (u ''CAN'', u ''Canada''),
      ([21152, 25343, 22823], u ''Canada''),
      (u ''IND'', u ''India''),
      ([21360, 24230], u ''India''),
      (u ''UAE'', u ''United Arab Emirates''),
      (u ''ARE'', u ''United Arab Emirates''),
      (u ''Emirates'', u ''United Arab Emirates''),
      ([38463, 32852, 37195], u ''United Arab Emirates'')]"

text \<open>
  The loop \<^verbatim>\<open>for variant, standard in COUNTRY_NAME_MAPPING.items()\<close> of
  \<^verbatim>\<open>standardize_country_name\<close>: the first item whose key contains the name or is
  contained in it, both in lower case, decides.
\<close>

fun fuzzy_match :: "(ustr \<times> ustr) list \<Rightarrow> ustr \<Rightarrow> ustr option" where
  "fuzzy_match [] country_name = None"
| "fuzzy_match ((variant, standard) # items) country_name =
     (if py_in (lower variant) (lower country_name) \<or> py_in (lower country_name) (lower variant)
      then Some standard
      else fuzzy_match items country_name)"

text \<open>
  \<^verbatim>\<open>standardize_country_name\<close>. The function uses its argument through
  \<^verbatim>\<open>pd.isna\<close> and \<^verbatim>\<open>str\<close> only: the argument is \<open>None\<close> for a missing value
  (\<^verbatim>\<open>None\<close>, NaN) and \<open>Some s\<close> for a value whose \<^verbatim>\<open>str\<close> is \<open>s\<close>.
\<close>

definition standardize_country_name :: "ustr option \<Rightarrow> ustr option" where
  "standardize_country_name raw =
     (case raw of
        None \<Rightarrow> None
      | Some s \<Rightarrow>
          (let country_name = strip s in
           if country_name \<in> set TARGET_COUNTRIES then Some country_name
           else (case map_of COUNTRY_NAME_MAPPING country_name of
                   Some standard \<Rightarrow> Some standard
                 | None \<Rightarrow> fuzzy_match COUNTRY_NAME_MAPPING country_name)))"



section \<open>Tables\<close>

text \<open>
  A cell of a pandas table is missing (NaN or \<^verbatim>\<open>None\<close>), a string or a number. Numbers
  are exact rationals: rounding of floating-point arithmetic, infinities and integer
  overflow are not modelled.
\<close>

datatype cell = NA | Txt ustr | Num rat

text \<open>The exceptions that the modelled pandas operations raise.\<close>

datatype error = KeyError | TypeError | ValueError | MergeError

text \<open>
  A panel is a table with the key columns \<^verbatim>\<open>Country\<close> (a string) and \<^verbatim>\<open>Year\<close> (an
  integer) and any number of feature columns: \<open>feats\<close> are the names of the feature
  columns in order, and a row is its key \<open>(Country, Year)\<close> with its feature cells. The
  position of the two key columns among the columns is not represented. The tables
  handled by \<^verbatim>\<open>merge_all_data\<close>, \<^verbatim>\<open>interpolate_missing_years\<close> and
  \<^verbatim>\<open>impute_with_commercial_score\<close> are panels.
\<close>

type_synonym prow = "(ustr \<times> int) \<times> cell list"

record panel =
  feats :: "ustr list"
  prows :: "prow list"

definition country_of :: "prow \<Rightarrow> ustr" where
  "country_of r = fst (fst r)"

definition year_of :: "prow \<Rightarrow> int" where
  "year_of r = snd (fst r)"

text \<open>A row is as wide as the table; a cell beyond a short row reads as missing.\<close>

definition nth_cell :: "cell list \<Rightarrow> nat \<Rightarrow> cell" where
  "nth_cell r j = (if j < length r then r ! j else NA)"

definition wf_panel :: "panel \<Rightarrow> bool" where
  "wf_panel df =
     (distinct (feats df) \<and> list_all (\<lambda>r. length (snd r) = length (feats df)) (prows df))"

text \<open>\<^verbatim>\<open>pd.DataFrame()\<close>: no columns and no rows.\<close>

definition empty_frame :: panel where
  "empty_frame = \<lparr>feats = [], prows = []\<rparr>"

section \<open>The merge engine\<close>

text \<open>
  \<^verbatim>\<open>pd.merge(left, right, on=['Country', 'Year'], how='outer')\<close>. A feature name that
  both tables have gets the suffix \<^verbatim>\<open>_x\<close> on the left and \<^verbatim>\<open>_y\<close> on the right; pandas
  raises \<^verbatim>\<open>MergeError\<close> when a suffix makes a name a duplicate on its own side. The
  result has the keys of both tables in lexicographic order; a key that both tables have
  gives every pair of a left and a right row with that key, a key of one table alone
  gives that table's rows with the other table's features missing.
\<close>

definition suffix_overlap :: "ustr list \<Rightarrow> ustr list \<Rightarrow> ustr \<Rightarrow> ustr list" where
  "suffix_overlap own other sfx = map (\<lambda>c. if c \<in> set other then c @ sfx else c) own"

definition suffix_dups :: "ustr list \<Rightarrow> ustr list \<Rightarrow> ustr list" where
  "suffix_dups labels orig =
     map (\<lambda>i. labels ! i)
       (filter (\<lambda>i. labels ! i \<in> set (take i labels) \<and> orig ! i \<notin> set (take i orig))
          [0..<length labels])"

definition join_key :: "panel \<Rightarrow> panel \<Rightarrow> ustr \<times> int \<Rightarrow> prow list" where
  "join_key left right k =
     (let ls = filter (\<lambda>r. fst r = k) (prows left);
          rs = filter (\<lambda>r. fst r = k) (prows right) in
      if rs = [] then map (\<lambda>l. (k, snd l @ replicate (length (feats right)) NA)) ls
      else if ls = [] then map (\<lambda>r. (k, replicate (length (feats left)) NA @ snd r)) rs
      else concat (map (\<lambda>l. map (\<lambda>r. (k, snd l @ snd r)) rs) ls))"

definition pd_merge_outer :: "panel \<Rightarrow> panel \<Rightarrow> error + panel" where
  "pd_merge_outer left right =
     (let llabels = suffix_overlap (feats left) (feats right) (u ''_x'');
          rlabels = suffix_overlap (feats right) (feats left) (u ''_y'') in
      if suffix_dups llabels (feats left) \<noteq> [] \<or> suffix_dups rlabels (feats right) \<noteq> []
      then Inl MergeError
      else Inr \<lparr>feats = llabels @ rlabels,
                prows = concat (map (join_key left right)
                          (sort (remdups (map fst (prows left) @ map fst (prows right)))))\<rparr>)"

text \<open>
  The loop of \<^verbatim>\<open>merge_all_data\<close> over the list of \<^verbatim>\<open>(name, df)\<close>: \<open>df_merged\<close> is
  \<open>None\<close> until the first table that is not \<^verbatim>\<open>None\<close> and has a row.
\<close>

fun merge_loop :: "panel option \<Rightarrow> (ustr \<times> panel option) list \<Rightarrow> error + panel option" where
  "merge_loop df_merged [] = Inr df_merged"
| "merge_loop df_merged ((name, df) # df_list) =
     (case df of
        None \<Rightarrow> merge_loop df_merged df_list
      | Some d \<Rightarrow>
          if length (prows d) > 0 then
            (case df_merged of
               None \<Rightarrow> merge_loop (Some d) df_list
             | Some m \<Rightarrow>
                 (case pd_merge_outer m d of
                    Inl e \<Rightarrow> Inl e
                  | Inr m' \<Rightarrow> merge_loop (Some m') df_list))
          else merge_loop df_merged df_list)"

text \<open>
  \<^verbatim>\<open>merge_all_data\<close>. \<^verbatim>\<open>Year\<close> is an integer column already, so \<^verbatim>\<open>astype(int)\<close>
  changes nothing; \<^verbatim>\<open>sort_values(['Country', 'Year'])\<close> is a stable sort on the key,
  strings compared code point by code point.
\<close>

definition merge_all_data :: "(ustr \<times> panel option) list \<Rightarrow> error + panel" where
  "merge_all_data df_list =
     (case merge_loop None df_list of
        Inl e \<Rightarrow> Inl e
      | Inr None \<Rightarrow> Inr empty_frame
      | Inr (Some df_merged) \<Rightarrow>
          if length (prows df_merged) = 0 then Inr empty_frame
          else Inr (df_merged\<lparr>prows := sort_key fst (prows df_merged)\<rparr>))"

section \<open>The temporal interpolator\<close>

definition cell_num :: "cell \<Rightarrow> rat option" where
  "cell_num c = (case c of Num r \<Rightarrow> Some r | _ \<Rightarrow> None)"

definition num_cell :: "rat option \<Rightarrow> cell" where
  "num_cell x = (case x of Some r \<Rightarrow> Num r | None \<Rightarrow> NA)"

text \<open>
  \<^verbatim>\<open>Series.interpolate(method='linear', limit_direction='both')\<close> on a numeric column:
  the values are taken as equally spaced (the positions \<open>0, 1, ...\<close> are the abscissae), a
  missing value between two known ones lies on the line through its nearest known
  neighbours, a missing value before the first or after the last known one takes that one,
  and a column with no known value stays as it is.
\<close>

fun first_known :: "(nat \<times> rat option) list \<Rightarrow> (nat \<times> rat) option" where
  "first_known [] = None"
| "first_known ((k, Some v) # ps) = Some (k, v)"
| "first_known ((k, None) # ps) = first_known ps"

definition interp_at :: "(nat \<times> rat option) list \<Rightarrow> nat \<Rightarrow> rat option" where
  "interp_at pts i =
     (case (first_known (rev (take i pts)), first_known (drop (Suc i) pts)) of
        (Some (p, a), Some (q, b)) \<Rightarrow>
          Some (a + (b - a) * (of_nat i - of_nat p) / (of_nat q - of_nat p))
      | (Some (p, a), None) \<Rightarrow> Some a
      | (None, Some (q, b)) \<Rightarrow> Some b
      | (None, None) \<Rightarrow> None)"

definition pd_interpolate :: "rat option list \<Rightarrow> rat option list" where
  "pd_interpolate xs =
     (let pts = zip [0..<length xs] xs in
      map (\<lambda>(i, x). case x of Some v \<Rightarrow> Some v | None \<Rightarrow> interp_at pts i) pts)"

text \<open>
  \<^verbatim>\<open>select_dtypes(include=[np.number])\<close>: a column of a table read from a file is
  numeric unless it holds a string, so a feature column counts as numeric when none of its
  cells in the whole table is a string.
\<close>

definition numeric_col :: "prow list \<Rightarrow> nat \<Rightarrow> bool" where
  "numeric_col rs j =
     list_all (\<lambda>r. case nth_cell (snd r) j of Txt s \<Rightarrow> False | _ \<Rightarrow> True) rs"

definition interpolate_col :: "cell list list \<Rightarrow> nat \<Rightarrow> cell list list" where
  "interpolate_col rs j =
     map (\<lambda>(r, v). r[j := num_cell v])
       (zip rs (pd_interpolate (map (\<lambda>r. cell_num (nth_cell r j)) rs)))"

text \<open>
  The left join of the full range of years with the rows of one country: a year without
  a row gives one row of missing features, a year with rows gives each of them.
\<close>

definition full_year_rows :: "nat \<Rightarrow> prow list \<Rightarrow> int \<Rightarrow> (int \<times> cell list) list" where
  "full_year_rows n df_country y =
     (let m = filter (\<lambda>r. year_of r = y) df_country in
      if m = [] then [(y, replicate n NA)] else map (\<lambda>r. (y, snd r)) m)"

text \<open>
  The body of the loop \<^verbatim>\<open>for country in TARGET_COUNTRIES\<close> of
  \<^verbatim>\<open>interpolate_missing_years\<close>; \<open>None\<close> is the \<^verbatim>\<open>continue\<close> for a country
  without rows.
\<close>

definition interpolate_country :: "panel \<Rightarrow> ustr \<Rightarrow> prow list option" where
  "interpolate_country df country =
     (let df_country = filter (\<lambda>r. country_of r = country) (prows df) in
      if length df_country = 0 then None
      else
        (let min_year = Min (set (map year_of df_country));
             max_year = Max (set (map year_of df_country));
             df_country_full =
               concat (map (full_year_rows (length (feats df)) df_country) [min_year..max_year]);
             numeric_cols = filter (numeric_col (prows df)) [0..<length (feats df)];
             cells = foldl interpolate_col (map snd df_country_full) numeric_cols
         in Some (map (\<lambda>(y, r). ((country, y), r)) (zip (map fst df_country_full) cells))))"

definition interpolate_missing_years :: "panel \<Rightarrow> panel" where
  "interpolate_missing_years df =
     (let df_interpolated_list = List.map_filter (interpolate_country df) TARGET_COUNTRIES in
      if df_interpolated_list = [] then df
      else df\<lparr>prows := concat df_interpolated_list\<rparr>)"

text \<open>
  The interpolation as the specification words it, over the year axis: \<open>known y\<close> is the
  value observed in year \<open>y\<close>, if any. A known value stays; a missing one between two
  known years lies on the line through the nearest known year on each side; one before
  the first or after the last known year takes the nearest known value.
\<close>

definition interp_spec :: "(int \<Rightarrow> rat option) \<Rightarrow> int \<Rightarrow> int \<Rightarrow> int \<Rightarrow> rat option" where
  "interp_spec known lo hi y =
     (case known y of
        Some v \<Rightarrow> Some v
      | None \<Rightarrow>
          (case (find (\<lambda>p. known p \<noteq> None) (rev [lo..y - 1]),
                 find (\<lambda>q. known q \<noteq> None) [y + 1..hi]) of
             (Some p, Some q) \<Rightarrow>
               Some (the (known p)
                     + (the (known q) - the (known p)) * of_int (y - p) / of_int (q - p))
           | (Some p, None) \<Rightarrow> known p
           | (None, Some q) \<Rightarrow> known q
           | (None, None) \<Rightarrow> None))"

text \<open>The value of feature \<open>j\<close> that the table holds for a country in a year.\<close>

definition observed :: "panel \<Rightarrow> ustr \<Rightarrow> nat \<Rightarrow> int \<Rightarrow> rat option" where
  "observed df country j y =
     (case find (\<lambda>r. fst r = (country, y)) (prows df) of
        None \<Rightarrow> None
      | Some r \<Rightarrow> cell_num (nth_cell (snd r) j))"

section \<open>The cross-feature imputer\<close>

text \<open>
  \<^verbatim>\<open>df.columns\<close> of a panel: the key columns and the features. The imputer only asks
  whether a name is a column and which column is the first to hold both keywords, which
  the two key columns never do.
\<close>

definition df_columns :: "panel \<Rightarrow> ustr list" where
  "df_columns df = u ''Country'' # u ''Year'' # feats df"

definition is_business_ai :: "ustr \<Rightarrow> bool" where
  "is_business_ai col = (py_in (u ''business'') (lower col) \<and> py_in (u ''ai'') (lower col))"

definition col_index :: "ustr list \<Rightarrow> ustr \<Rightarrow> nat" where
  "col_index cols c = length (takeWhile (\<lambda>x. x \<noteq> c) cols)"

text \<open>
  One round of the loop over the three countries:
  \<^verbatim>\<open>df.loc[mask, business_col] = df.loc[mask, 'Commercial_Score']\<close>.
\<close>

definition impute_country :: "ustr \<Rightarrow> panel \<Rightarrow> ustr \<Rightarrow> panel" where
  "impute_country business_col df country =
     (let bj = col_index (feats df) business_col;
          cj = col_index (feats df) (u ''Commercial_Score'') in
      df\<lparr>prows :=
           map (\<lambda>r. if country_of r = country \<and> nth_cell (snd r) bj = NA
                     then (fst r, (snd r)[bj := nth_cell (snd r) cj])
                     else r)
             (prows df)\<rparr>)"

definition impute_with_commercial_score :: "panel \<Rightarrow> panel" where
  "impute_with_commercial_score df =
     (if u ''Commercial_Score'' \<notin> set (df_columns df) then df
      else
        (case find is_business_ai (df_columns df) of
           Some business_col \<Rightarrow>
             foldl (impute_country business_col) df
               [u ''China'', u ''India'', u ''United Arab Emirates'']
         | None \<Rightarrow>
             df\<lparr>feats := feats df @ [u ''Business_AI_Adoption''],
                prows :=
                  map (\<lambda>r. (fst r,
                         snd r @ [nth_cell (snd r) (col_index (feats df) (u ''Commercial_Score''))]))
                    (prows df)\<rparr>))"

section \<open>Properties of the country normalizer\<close>



lemma lower_Nil: "lower [] = []"
  by (simp add: lower_def)

lemma Nil_not_target: "[] \<notin> set TARGET_COUNTRIES"
  by (simp add: TARGET_COUNTRIES_def u_def)

lemma Nil_not_alias: "map_of COUNTRY_NAME_MAPPING [] = None"
  by code_simp

lemma fuzzy_match_Nil: "fuzzy_match COUNTRY_NAME_MAPPING [] = Some (u ''China'')"
  by code_simp






text \<open>
  C10. A string that is empty once trimmed is not rejected: the empty string occurs in
  every alias, so the loop over the alias table stops at its first item and the result is
  "China"; so for the empty string and for a string of blanks.
\<close>

theorem standardize_blank_is_China:
  "(strip s = [] \<longrightarrow> standardize_country_name (Some s) = Some (u ''China''))
   \<and> standardize_country_name (Some (u '''')) = Some (u ''China'')
   \<and> standardize_country_name (Some (u ''   '')) = Some (u ''China'')"
proof (intro conjI impI)
  assume "strip s = []"
  then show "standardize_country_name (Some s) = Some (u ''China'')"
    by (simp add: standardize_country_name_def Nil_not_target Nil_not_alias fuzzy_match_Nil)
next
  show "standardize_country_name (Some (u '''')) = Some (u ''China'')"
    by code_simp
next
  show "standardize_country_name (Some (u ''   '')) = Some (u ''China'')"
    by code_simp
qed

theorem standardize_blank_is_China_witness:
  "strip [9, 32, 12288] = [] \<and> standardize_country_name (Some [9, 32, 12288]) = Some (u ''China'')"
proof -
  have b: "strip [9, 32, 12288] = []"
    by code_simp
  from standardize_blank_is_China [of "[9, 32, 12288]"] b show ?thesis
    by simp
qed

end
